theory Spec2Isabelle
  imports Complex_Main
begin

section \<open>Numbers, vectors and directions\<close>

text \<open>
  Positions are Three.js \<open>Vector3\<close> values. The claims are stated in real arithmetic, so a
  coordinate is a \<open>real\<close>. The fields are called \<open>pos_x\<close>, \<open>pos_y\<close>, \<open>pos_z\<close> (the
  source's \<open>position.x\<close>, \<open>position.y\<close>, \<open>position.z\<close>).
\<close>

record vec3 =
  pos_x :: real
  pos_y :: real
  pos_z :: real

text \<open>
  Modelled from the spec: the \<open>Direction\<close> enumeration. Its declaration is not among the
  sources; both \<open>move\<close> routines switch on the four members named here.
\<close>

datatype Direction = UP | DOWN | LEFT | RIGHT

text \<open>
  The only place where the real-number reading of the code needs care is the quotient
  \<open>y / radius\<close>: a JavaScript division by zero does not fail, it yields an infinity or NaN,
  and \<open>Math.min\<close>, \<open>Math.max\<close> and \<open>Math.acos\<close> are defined on those values. The
  intermediate results of that one expression are therefore values of \<open>jsnum\<close>. The real
  zero stands for the positive zero of the floating-point format.
\<close>

datatype jsnum = Fin real | PosInf | NegInf | NaN

definition js_div :: "real \<Rightarrow> real \<Rightarrow> jsnum" where
  "js_div a b =
     (if b \<noteq> 0 then Fin (a / b)
      else if 0 < a then PosInf
      else if a < 0 then NegInf
      else NaN)"

fun js_min :: "real \<Rightarrow> jsnum \<Rightarrow> jsnum" where
  "js_min a (Fin b) = Fin (min a b)"
| "js_min a PosInf = Fin a"
| "js_min a NegInf = NegInf"
| "js_min a NaN = NaN"

fun js_max :: "real \<Rightarrow> jsnum \<Rightarrow> jsnum" where
  "js_max a (Fin b) = Fin (max a b)"
| "js_max a PosInf = PosInf"
| "js_max a NegInf = Fin a"
| "js_max a NaN = NaN"

text \<open>
  \<open>Math.acos\<close> returns NaN outside \<open>[-1, 1]\<close>; NaN is \<open>None\<close> here, so that an
  out-of-range argument is visible in the model instead of being some unspecified angle.
\<close>

fun js_acos :: "jsnum \<Rightarrow> real option" where
  "js_acos (Fin v) = (if - 1 \<le> v \<and> v \<le> 1 then Some (arccos v) else None)"
| "js_acos PosInf = None"
| "js_acos NegInf = None"
| "js_acos NaN = None"

text \<open>
  \<open>Math.atan2(b, a)\<close>: the angle of the point \<open>(a, b)\<close>, in \<open>(-pi, pi]\<close>, and \<open>0\<close> at
  the origin.
\<close>

definition atan2 :: "real \<Rightarrow> real \<Rightarrow> real" where
  "atan2 b a =
     (if 0 < a then arctan (b / a)
      else if a < 0 then (if 0 \<le> b then arctan (b / a) + pi else arctan (b / a) - pi)
      else if 0 < b then pi / 2
      else if b < 0 then - (pi / 2)
      else 0)"

section \<open>CompoundObject: moving the spaceship around the sphere\<close>

text \<open>
  The fields of \<open>CompoundObject\<close> that the routines below read or write: the position of the
  primary mesh, the point the primary was last turned towards with \<open>lookAt\<close> (\<open>None\<close>
  for the orientation a new mesh has), the position of the Three.js group, and the collision
  radius that \<open>#buildScene\<close> stores on the compound (\<open>raioCol\<close>).
\<close>

record compound =
  primary_position :: vec3
  primary_facing :: "vec3 option"
  group_position :: vec3
  compound_raioCol :: real

text \<open>\<open>const _MOVE_STEP = 3\<close> (CompoundObject.js).\<close>

definition MOVE_STEP :: real where
  "MOVE_STEP = 3"

text \<open>
  \<open>#applyRotation(radius, theta, phi)\<close> overwrites the three coordinates of the primary's
  position, in the order x, z, y.
\<close>

definition applyRotation :: "real \<Rightarrow> real \<Rightarrow> real \<Rightarrow> compound \<Rightarrow> compound" where
  "applyRotation radius theta phi c =
     c\<lparr>primary_position :=
         (primary_position c)
           \<lparr>pos_x := sin phi * radius * sin theta,
            pos_z := sin phi * radius * cos theta,
            pos_y := cos phi * radius\<rparr>\<rparr>"

text \<open>The two angles that \<open>move\<close> recovers from the current position.\<close>

definition move_theta :: "vec3 \<Rightarrow> real" where
  "move_theta p = atan2 (pos_x p) (pos_z p)"

definition move_clamped :: "vec3 \<Rightarrow> real \<Rightarrow> jsnum" where
  "move_clamped p radius = js_max (- 1) (js_min 1 (js_div (pos_y p) radius))"

definition move_phi :: "vec3 \<Rightarrow> real \<Rightarrow> real option" where
  "move_phi p radius = js_acos (move_clamped p radius)"

text \<open>
  \<open>move(direction, delta, radius)\<close> of CompoundObject.js, on a primary whose three
  coordinates are numbers. When \<open>phi\<close> is NaN every coordinate written by
  \<open>#applyRotation\<close> is NaN (each is a product or a cosine of \<open>phi\<close>); that outcome is
  \<open>None\<close>. A primary that already has a NaN coordinate is the subject of \<open>move_js\<close>
  below.
\<close>

definition move :: "Direction \<Rightarrow> real \<Rightarrow> real \<Rightarrow> compound \<Rightarrow> compound option" where
  "move direction delta radius c =
     (let theta = move_theta (primary_position c) in
      case move_phi (primary_position c) radius of
        None \<Rightarrow> None
      | Some phi \<Rightarrow>
          Some (case direction of
                  UP \<Rightarrow> applyRotation radius theta (phi + MOVE_STEP * delta) c
                | DOWN \<Rightarrow> applyRotation radius theta (phi - MOVE_STEP * delta) c
                | LEFT \<Rightarrow> applyRotation radius (theta + MOVE_STEP * delta) phi c
                | RIGHT \<Rightarrow> applyRotation radius (theta - MOVE_STEP * delta) phi c))"

text \<open>
  The earlier \<open>CompoundObject.move(direction, delta)\<close> (the move-by-direction routine),
  which translates the group, with its own step \<open>const __MOVE_STEP = 20\<close>.
\<close>

definition MOVE_STEP_group :: real where
  "MOVE_STEP_group = 20"

definition move_group :: "Direction \<Rightarrow> real \<Rightarrow> compound \<Rightarrow> compound" where
  "move_group direction delta c =
     (case direction of
        UP \<Rightarrow> c\<lparr>group_position :=
                 (group_position c)\<lparr>pos_y := pos_y (group_position c) + MOVE_STEP_group * delta\<rparr>\<rparr>
      | DOWN \<Rightarrow> c\<lparr>group_position :=
                 (group_position c)\<lparr>pos_y := pos_y (group_position c) - MOVE_STEP_group * delta\<rparr>\<rparr>
      | LEFT \<Rightarrow> c\<lparr>group_position :=
                 (group_position c)\<lparr>pos_x := pos_x (group_position c) - MOVE_STEP_group * delta\<rparr>\<rparr>
      | RIGHT \<Rightarrow> c\<lparr>group_position :=
                 (group_position c)\<lparr>pos_x := pos_x (group_position c) + MOVE_STEP_group * delta\<rparr>\<rparr>)"

text \<open>
  The description of \<open>move\<close> in the words of the specification: recover \<open>theta\<close> and
  \<open>phi\<close>, offset one of them by the step, and write the spherical coordinates back.
\<close>

definition clamp :: "jsnum \<Rightarrow> real \<Rightarrow> real \<Rightarrow> jsnum" where
  "clamp v lo hi = js_max lo (js_min hi v)"

definition move_spec :: "Direction \<Rightarrow> real \<Rightarrow> real \<Rightarrow> compound \<Rightarrow> compound option" where
  "move_spec direction delta radius c =
     (let p = primary_position c;
          theta = atan2 (pos_x p) (pos_z p)
      in case js_acos (clamp (js_div (pos_y p) radius) (- 1) 1) of
           None \<Rightarrow> None
         | Some phi \<Rightarrow>
             (let phi' = (case direction of
                            UP \<Rightarrow> phi + MOVE_STEP * delta
                          | DOWN \<Rightarrow> phi - MOVE_STEP * delta
                          | LEFT \<Rightarrow> phi
                          | RIGHT \<Rightarrow> phi);
                  theta' = (case direction of
                              UP \<Rightarrow> theta
                            | DOWN \<Rightarrow> theta
                            | LEFT \<Rightarrow> theta + MOVE_STEP * delta
                            | RIGHT \<Rightarrow> theta - MOVE_STEP * delta)
              in Some (c\<lparr>primary_position :=
                          \<lparr>pos_x = radius * sin phi' * sin theta',
                           pos_y = radius * cos phi',
                           pos_z = radius * sin phi' * cos theta'\<rparr>\<rparr>)))"

section \<open>Main: the scene, the debris and the per-frame collision check\<close>

text \<open>
  Meshes are objects with identity: the scene's child list and the \<open>#litter\<close> array hold
  references to the same meshes. A reference is a natural number and \<open>objects\<close> is the
  store. \<open>raioCol\<close> is a property added by \<open>#buildScene\<close>; on a mesh that was never
  given one it is \<open>undefined\<close>, which is \<open>None\<close>.
\<close>

type_synonym ref = nat

record mesh =
  position :: vec3
  raioCol :: "real option"

record main_state =
  objects :: "ref \<Rightarrow> mesh"
  scene :: "ref list"
  litter :: "ref list"
  compound :: compound

text \<open>\<open>const _EARTH_RADIUS = 70\<close>.\<close>

definition EARTH_RADIUS :: real where
  "EARTH_RADIUS = 70"

text \<open>
  The collision radii that \<open>#buildScene\<close> assigns. Every size is
  \<open>Math.floor(Math.random() * (max - min)) + min\<close> with \<open>min = Math.ceil(_EARTH_RADIUS/24)\<close>
  and \<open>max = Math.floor(_EARTH_RADIUS/20)\<close>; \<open>rnd\<close> is the value of \<open>Math.random()\<close>.
  A cube gets \<open>(Math.sqrt(3)/2)*size\<close>; a cylinder, a cone and a pyramid get
  \<open>Math.sqrt((radius**2) + ((height/2)**2))\<close> with \<open>radius\<close> half of a size; the compound
  gets \<open>5.52\<close>.
\<close>

definition debris_size :: "real \<Rightarrow> real" where
  "debris_size rnd =
     (let min_size = \<lceil>EARTH_RADIUS / 24\<rceil>;
          max_size = \<lfloor>EARTH_RADIUS / 20\<rfloor>
      in of_int (\<lfloor>rnd * of_int (max_size - min_size)\<rfloor> + min_size))"

definition cube_raioCol :: "real \<Rightarrow> real" where
  "cube_raioCol sz = (sqrt 3 / 2) * sz"

definition cylinder_raioCol :: "real \<Rightarrow> real \<Rightarrow> real" where
  "cylinder_raioCol radius height = sqrt (radius\<^sup>2 + (height / 2)\<^sup>2)"

definition spaceship_raioCol :: real where
  "spaceship_raioCol = 552 / 100"

text \<open>
  The compound as \<open>#buildScene\<close> leaves it, with the primary at \<open>(x, y, z)\<close>: the group
  stays at the origin and the primary has not been turned yet.
\<close>

definition spaceship :: "real \<Rightarrow> real \<Rightarrow> real \<Rightarrow> compound" where
  "spaceship x y z =
     \<lparr>primary_position = \<lparr>pos_x = x, pos_y = y, pos_z = z\<rparr>,
      primary_facing = None,
      group_position = \<lparr>pos_x = 0, pos_y = 0, pos_z = 0\<rparr>,
      compound_raioCol = spaceship_raioCol\<rparr>"

text \<open>
  Three.js \<open>Object3D.remove(object)\<close>: the first occurrence of the object in the child
  list is spliced out; a scene that does not hold the object is left as it is.
\<close>

definition scene_remove :: "ref \<Rightarrow> ref list \<Rightarrow> ref list" where
  "scene_remove obj children = remove1 obj children"

text \<open>
  \<open>Array.prototype.slice(start, end)\<close> on indices that are natural numbers: a new array
  with the elements from \<open>start\<close> up to, not including, \<open>end\<close>. The receiver is not
  changed.
\<close>

definition slice :: "'a list \<Rightarrow> nat \<Rightarrow> nat \<Rightarrow> 'a list" where
  "slice xs start end = take (end - start) (drop start xs)"

text \<open>The distance as \<open>#checkCollision\<close> computes it.\<close>

definition collision_distance :: "vec3 \<Rightarrow> vec3 \<Rightarrow> real" where
  "collision_distance p1 p2 =
     (let x = \<bar>pos_x p1 - pos_x p2\<bar>;
          y = \<bar>pos_y p1 - pos_y p2\<bar>;
          z = \<bar>pos_z p1 - pos_z p2\<bar>
      in if x \<noteq> 0 \<or> y \<noteq> 0 \<or> z \<noteq> 0 then sqrt ((x * x) + (y * y) + (z * z)) else 0)"

text \<open>
  The right-hand side of the comparison, \<open>this.#litter[i].raioCol + this.#compound.raioCol\<close>.
  With an undefined \<open>raioCol\<close> the sum is NaN (\<open>None\<close>) and the comparison is false.
\<close>

definition collision_threshold :: "main_state \<Rightarrow> ref \<Rightarrow> real option" where
  "collision_threshold s obj =
     (case raioCol (objects s obj) of
        None \<Rightarrow> None
      | Some rc \<Rightarrow> Some (rc + compound_raioCol (compound s)))"

definition collides :: "main_state \<Rightarrow> ref \<Rightarrow> bool" where
  "collides s obj =
     (case collision_threshold s obj of
        None \<Rightarrow> False
      | Some t \<Rightarrow>
          collision_distance (position (objects s obj)) (primary_position (compound s)) \<le> t)"

text \<open>
  The body of the loop of \<open>#checkCollision\<close> at index \<open>i\<close> (the loop guard gives
  \<open>i < length (litter s)\<close>). The result of \<open>slice\<close> is computed and dropped, as in the
  source.
\<close>

definition checkCollision_body :: "nat \<Rightarrow> main_state \<Rightarrow> main_state" where
  "checkCollision_body i s =
     (if collides s (litter s ! i) then
        (let s' = s\<lparr>scene := scene_remove (litter s ! i) (scene s)\<rparr>;
             dropped = slice (litter s') i 1
         in s')
      else s)"

function checkCollision_loop :: "nat \<Rightarrow> main_state \<Rightarrow> main_state" where
  "checkCollision_loop i s =
     (if i < length (litter s) then checkCollision_loop (i + 1) (checkCollision_body i s) else s)"
  by pat_completeness auto
termination
  by (relation "measure (\<lambda>(i, s). length (litter s) - i)")
    (auto simp: checkCollision_body_def Let_def)

declare checkCollision_loop.simps [simp del]

definition checkCollision :: "main_state \<Rightarrow> main_state" where
  "checkCollision s = checkCollision_loop 0 s"

text \<open>
  What one visit of the scan does to the item \<open>obj\<close>, and the Euclidean distance of the
  specification.
\<close>

definition remove_if_colliding :: "main_state \<Rightarrow> ref \<Rightarrow> main_state" where
  "remove_if_colliding s obj =
     (if collides s obj then s\<lparr>scene := scene_remove obj (scene s)\<rparr> else s)"

definition euclidean_distance :: "vec3 \<Rightarrow> vec3 \<Rightarrow> real" where
  "euclidean_distance p q =
     sqrt ((pos_x p - pos_x q)\<^sup>2 + (pos_y p - pos_y q)\<^sup>2 + (pos_z p - pos_z q)\<^sup>2)"

subsection \<open>The frame: update, then display\<close>

text \<open>
  \<open>Object3D.lookAt\<close> turns the mesh; it does not move it.
\<close>

definition lookAt :: "vec3 \<Rightarrow> compound \<Rightarrow> compound" where
  "lookAt target c = c\<lparr>primary_facing := Some target\<rparr>"

text \<open>
  \<open>KeyController.processKeyPressed\<close> is not among the sources. It is the parameter
  \<open>processKeyPressed\<close>: given \<open>delta\<close> and the world radius it may change the state in
  any way. \<open>delta\<close> is the value of \<open>clock.getDelta()\<close>.
\<close>

definition update :: "(real \<Rightarrow> real \<Rightarrow> main_state \<Rightarrow> main_state) \<Rightarrow> real \<Rightarrow> main_state \<Rightarrow> main_state" where
  "update processKeyPressed delta s =
     (let s1 = checkCollision s;
          s2 = processKeyPressed delta (EARTH_RADIUS * (12 / 10)) s1
      in s2\<lparr>compound := lookAt \<lparr>pos_x = 0, pos_y = 0, pos_z = 0\<rparr> (compound s2)\<rparr>)"

text \<open>
  \<open>#display\<close> hands the scene to the renderer; the frame that is drawn is the scene's
  child list at that moment.
\<close>

definition display :: "main_state \<Rightarrow> ref list" where
  "display s = scene s"

text \<open>
  One run of \<open>animate\<close>: the state after the frame and the frame that was drawn.
  \<open>requestAnimationFrame\<close> then runs \<open>animate\<close> again; \<open>frames\<close> runs it once for each
  clock value of a list and collects what was drawn.
\<close>

definition animate :: "(real \<Rightarrow> real \<Rightarrow> main_state \<Rightarrow> main_state) \<Rightarrow> real \<Rightarrow> main_state \<Rightarrow> main_state \<times> ref list" where
  "animate processKeyPressed delta s =
     (let s' = update processKeyPressed delta s in (s', display s'))"

fun frames :: "(real \<Rightarrow> real \<Rightarrow> main_state \<Rightarrow> main_state) \<Rightarrow> real list \<Rightarrow> main_state \<Rightarrow> main_state \<times> ref list list" where
  "frames processKeyPressed [] s = (s, [])"
| "frames processKeyPressed (delta # deltas) s =
     (let (s', drawn) = animate processKeyPressed delta s;
          (s'', rest) = frames processKeyPressed deltas s'
      in (s'', drawn # rest))"

text \<open>
  The items that the loop of \<open>#checkCollision\<close> reads as \<open>this.#litter[i]\<close>, in the order
  of the iterations: the same loop, collecting the item of each iteration.
\<close>

function checkCollision_visits :: "nat \<Rightarrow> main_state \<Rightarrow> ref list" where
  "checkCollision_visits i s =
     (if i < length (litter s)
      then litter s ! i # checkCollision_visits (i + 1) (checkCollision_body i s)
      else [])"
  by pat_completeness auto
termination
  by (relation "measure (\<lambda>(i, s). length (litter s) - i)")
    (auto simp: checkCollision_body_def Let_def)

declare checkCollision_visits.simps [simp del]

subsection \<open>A small scene\<close>

text \<open>
  A scene of the shape that \<open>#buildScene\<close> produces, cut down to the earth (reference 0), one
  cube (1), one cylinder (2) and the group of the spaceship (3). The cube sits where the
  spaceship is, the cylinder on the opposite side of the sphere of radius 84.
\<close>

definition example_objects :: "ref \<Rightarrow> mesh" where
  "example_objects r =
     (if r = 1 then
        \<lparr>position = \<lparr>pos_x = 0, pos_y = 0, pos_z = 84\<rparr>,
         raioCol = Some (cube_raioCol (debris_size (1 / 2)))\<rparr>
      else if r = 2 then
        \<lparr>position = \<lparr>pos_x = 0, pos_y = 0, pos_z = - 84\<rparr>,
         raioCol = Some (cylinder_raioCol (debris_size (1 / 2) / 2) (debris_size (1 / 2)))\<rparr>
      else
        \<lparr>position = \<lparr>pos_x = 0, pos_y = 0, pos_z = 0\<rparr>, raioCol = None\<rparr>)"

definition example_state :: main_state where
  "example_state =
     \<lparr>objects = example_objects,
      scene = [0, 1, 2, 3],
      litter = [1, 2],
      compound = spaceship 0 0 84\<rparr>"

section \<open>The primary's position as the program holds it\<close>

text \<open>
  \<open>#buildScene\<close> places the spaceship with \<open>z = Math.sqrt(...)\<close> of a difference that can
  be negative, so a coordinate of the primary can be NaN. A coordinate of \<open>jsvec3\<close> is a
  number or NaN (\<open>None\<close>).
\<close>

record jsvec3 =
  js_x :: "real option"
  js_y :: "real option"
  js_z :: "real option"

text \<open>\<open>Math.sqrt\<close>: NaN below zero.\<close>

definition js_sqrt :: "real \<Rightarrow> real option" where
  "js_sqrt v = (if 0 \<le> v then Some (sqrt v) else None)"

text \<open>
  The placement of the spaceship in \<open>#buildScene\<close>: \<open>x\<close> and \<open>y\<close> are
  \<open>Math.floor(Math.random() * (max - min)) + min\<close> with
  \<open>min = Math.ceil(_EARTH_RADIUS*1.2)\<close> and \<open>max = Math.floor(-(_EARTH_RADIUS*1.2))\<close>, and
  \<open>z\<close> is the square root of \<open>(_EARTH_RADIUS*1.2)**2 - x**2 - y**2\<close> or its negation, as
  a third random number is at least \<open>0.5\<close> or not. \<open>rx\<close>, \<open>ry\<close> and \<open>rpos\<close> are the
  three values of \<open>Math.random()\<close>.
\<close>

definition scatter_coordinate :: "real \<Rightarrow> real" where
  "scatter_coordinate rnd =
     (let min_c = \<lceil>EARTH_RADIUS * (12 / 10)\<rceil>;
          max_c = \<lfloor>- (EARTH_RADIUS * (12 / 10))\<rfloor>
      in of_int (\<lfloor>rnd * of_int (max_c - min_c)\<rfloor> + min_c))"

definition spaceship_start :: "real \<Rightarrow> real \<Rightarrow> real \<Rightarrow> jsvec3" where
  "spaceship_start rx ry rpos =
     (let x = scatter_coordinate rx;
          y = scatter_coordinate ry;
          z = (if 1 / 2 \<le> rpos
               then js_sqrt ((EARTH_RADIUS * (12 / 10))\<^sup>2 - x\<^sup>2 - y\<^sup>2)
               else map_option uminus (js_sqrt ((EARTH_RADIUS * (12 / 10))\<^sup>2 - x\<^sup>2 - y\<^sup>2)))
      in \<lparr>js_x = Some x, js_y = Some y, js_z = z\<rparr>)"

text \<open>
  \<open>move\<close> and \<open>#applyRotation\<close> of CompoundObject.js once more, now on such a position.
  \<open>Math.atan2\<close>, the quotient \<open>y / radius\<close>, the sums and the products are NaN as soon
  as an operand is NaN; \<open>radius\<close> and \<open>delta\<close> are numbers.
\<close>

definition js_atan2 :: "real option \<Rightarrow> real option \<Rightarrow> real option" where
  "js_atan2 b a =
     (case b of
        None \<Rightarrow> None
      | Some v \<Rightarrow> (case a of None \<Rightarrow> None | Some w \<Rightarrow> Some (atan2 v w)))"

definition js_phi :: "real option \<Rightarrow> real \<Rightarrow> real option" where
  "js_phi y radius =
     (case y of
        None \<Rightarrow> None
      | Some v \<Rightarrow> js_acos (js_max (- 1) (js_min 1 (js_div v radius))))"

definition applyRotation_js :: "real \<Rightarrow> real option \<Rightarrow> real option \<Rightarrow> jsvec3 \<Rightarrow> jsvec3" where
  "applyRotation_js radius theta phi p =
     p\<lparr>js_x := (case phi of
                   None \<Rightarrow> None
                 | Some f \<Rightarrow> (case theta of
                               None \<Rightarrow> None
                             | Some t \<Rightarrow> Some (sin f * radius * sin t))),
       js_z := (case phi of
                   None \<Rightarrow> None
                 | Some f \<Rightarrow> (case theta of
                               None \<Rightarrow> None
                             | Some t \<Rightarrow> Some (sin f * radius * cos t))),
       js_y := (case phi of
                   None \<Rightarrow> None
                 | Some f \<Rightarrow> Some (cos f * radius))\<rparr>"

definition move_js :: "Direction \<Rightarrow> real \<Rightarrow> real \<Rightarrow> jsvec3 \<Rightarrow> jsvec3" where
  "move_js direction delta radius p =
     (let theta = js_atan2 (js_x p) (js_z p);
          phi = js_phi (js_y p) radius
      in case direction of
           UP \<Rightarrow> applyRotation_js radius theta (map_option (\<lambda>f. f + MOVE_STEP * delta) phi) p
         | DOWN \<Rightarrow> applyRotation_js radius theta (map_option (\<lambda>f. f - MOVE_STEP * delta) phi) p
         | LEFT \<Rightarrow> applyRotation_js radius (map_option (\<lambda>t. t + MOVE_STEP * delta) theta) phi p
         | RIGHT \<Rightarrow> applyRotation_js radius (map_option (\<lambda>t. t - MOVE_STEP * delta) theta) phi p)"

text \<open>
  A position whose coordinates are numbers, as a \<open>jsvec3\<close>, and the position that is NaN
  throughout.
\<close>

definition numeric :: "vec3 \<Rightarrow> jsvec3" where
  "numeric p = \<lparr>js_x = Some (pos_x p), js_y = Some (pos_y p), js_z = Some (pos_z p)\<rparr>"

definition nan_position :: jsvec3 where
  "nan_position = \<lparr>js_x = None, js_y = None, js_z = None\<rparr>"

text \<open>
  Whether a position lies on the sphere of radius \<open>r\<close>. A position with a NaN coordinate
  satisfies no equation.
\<close>

definition primary_on_sphere :: "real \<Rightarrow> jsvec3 \<Rightarrow> bool" where
  "primary_on_sphere r p =
     (case js_x p of
        None \<Rightarrow> False
      | Some x \<Rightarrow>
          (case js_y p of
             None \<Rightarrow> False
           | Some y \<Rightarrow>
               (case js_z p of
                  None \<Rightarrow> False
                | Some z \<Rightarrow> x\<^sup>2 + y\<^sup>2 + z\<^sup>2 = r\<^sup>2)))"

section \<open>Properties of the moves\<close>

subsection \<open>Trigonometry of the two angles\<close>

lemma on_sphere:
  "(sin phi * r * sin theta)\<^sup>2 + (cos phi * r)\<^sup>2 + (sin phi * r * cos theta)\<^sup>2 = (r::real)\<^sup>2"
  using sin_cos_squared_add [of phi] sin_cos_squared_add [of theta] by algebra

lemma sqrt_ratio:
  assumes "a \<noteq> 0"
  shows "sqrt (1 + (b / a)\<^sup>2) = sqrt (a\<^sup>2 + b\<^sup>2) / \<bar>a\<bar>"
proof -
  have "1 + (b / a)\<^sup>2 = (a\<^sup>2 + b\<^sup>2) / a\<^sup>2"
    using assms by (simp add: power_divide field_simps)
  then show ?thesis by (simp add: real_sqrt_divide)
qed

lemma sin_atan2:
  assumes "a \<noteq> 0 \<or> b \<noteq> 0"
  shows "sin (atan2 b a) = b / sqrt (a\<^sup>2 + b\<^sup>2)"
proof -
  consider "0 < a" | "a < 0" | "a = 0" "0 < b" | "a = 0" "b < 0"
    using assms by linarith
  then show ?thesis
  proof cases
    case 1
    then show ?thesis
      by (simp add: atan2_def sin_arctan sqrt_ratio)
  next
    case 2
    then show ?thesis
      by (simp add: atan2_def sin_arctan sqrt_ratio)
  next
    case 3
    then show ?thesis by (simp add: atan2_def)
  next
    case 4
    then show ?thesis by (simp add: atan2_def)
  qed
qed

lemma cos_atan2:
  assumes "a \<noteq> 0 \<or> b \<noteq> 0"
  shows "cos (atan2 b a) = a / sqrt (a\<^sup>2 + b\<^sup>2)"
proof -
  consider "0 < a" | "a < 0" | "a = 0" "0 < b" | "a = 0" "b < 0"
    using assms by linarith
  then show ?thesis
  proof cases
    case 1
    then show ?thesis
      by (simp add: atan2_def cos_arctan sqrt_ratio)
  next
    case 2
    then show ?thesis
      by (simp add: atan2_def cos_arctan sqrt_ratio)
  next
    case 3
    then show ?thesis by (simp add: atan2_def)
  next
    case 4
    then show ?thesis by (simp add: atan2_def)
  qed
qed

lemma polar_atan2:
  assumes "s = sqrt (a\<^sup>2 + b\<^sup>2)"
  shows "s * sin (atan2 b a) = b" and "s * cos (atan2 b a) = a"
proof -
  have "s * sin (atan2 b a) = b \<and> s * cos (atan2 b a) = a"
  proof (cases "a \<noteq> 0 \<or> b \<noteq> 0")
    case True
    then have nz: "sqrt (a\<^sup>2 + b\<^sup>2) \<noteq> 0" by auto
    have "sqrt (a\<^sup>2 + b\<^sup>2) * (b / sqrt (a\<^sup>2 + b\<^sup>2)) = b"
      and "sqrt (a\<^sup>2 + b\<^sup>2) * (a / sqrt (a\<^sup>2 + b\<^sup>2)) = a"
      using nz by simp_all
    then show ?thesis
      unfolding assms sin_atan2 [OF True] cos_atan2 [OF True] by simp
  next
    case False
    then show ?thesis using assms by simp
  qed
  then show "s * sin (atan2 b a) = b" and "s * cos (atan2 b a) = a" by simp_all
qed

lemma atan2_polar:
  assumes "0 < s"
  shows "sin (atan2 (s * sin t) (s * cos t)) = sin t"
    and "cos (atan2 (s * sin t) (s * cos t)) = cos t"
proof -
  have nz: "s * cos t \<noteq> 0 \<or> s * sin t \<noteq> 0"
  proof (rule ccontr)
    assume "\<not> (s * cos t \<noteq> 0 \<or> s * sin t \<noteq> 0)"
    then have "cos t = 0" and "sin t = 0" using assms by simp_all
    then show False using sin_cos_squared_add [of t] by simp
  qed
  have "(s * cos t)\<^sup>2 + (s * sin t)\<^sup>2 = s\<^sup>2 * ((cos t)\<^sup>2 + (sin t)\<^sup>2)"
    unfolding power_mult_distrib by (simp only: distrib_left)
  then have sq: "sqrt ((s * cos t)\<^sup>2 + (s * sin t)\<^sup>2) = s"
    using assms by simp
  show "sin (atan2 (s * sin t) (s * cos t)) = sin t"
    using assms by (simp only: sin_atan2 [OF nz] sq) simp
  show "cos (atan2 (s * sin t) (s * cos t)) = cos t"
    using assms by (simp only: cos_atan2 [OF nz] sq) simp
qed

lemma yaw_roundtrip:
  assumes "s = sqrt (a\<^sup>2 + b\<^sup>2)"
  shows "s * sin (atan2 (s * sin (atan2 b a + d)) (s * cos (atan2 b a + d)) - d) = b"
    and "s * cos (atan2 (s * sin (atan2 b a + d)) (s * cos (atan2 b a + d)) - d) = a"
proof -
  let ?t = "atan2 b a"
  let ?u = "atan2 (s * sin (?t + d)) (s * cos (?t + d))"
  have "0 \<le> s" using assms by simp
  then consider "s = 0" | "0 < s" by linarith
  then have "s * sin (?u - d) = b \<and> s * cos (?u - d) = a"
  proof cases
    case 1
    then have "a\<^sup>2 + b\<^sup>2 = 0" using assms by simp
    then have "a = 0" "b = 0" by (simp_all add: sum_power2_eq_zero_iff)
    with 1 show ?thesis by simp
  next
    case 2
    have su: "sin ?u = sin (?t + d)" and cu: "cos ?u = cos (?t + d)"
      using atan2_polar [OF 2] by simp_all
    have "sin (?u - d) = sin ((?t + d) - d)"
      unfolding sin_diff su cu ..
    moreover have "cos (?u - d) = cos ((?t + d) - d)"
      unfolding cos_diff su cu ..
    ultimately show ?thesis
      using polar_atan2 [OF assms] by simp
  qed
  then show "s * sin (?u - d) = b" and "s * cos (?u - d) = a" by simp_all
qed

subsection \<open>The angles that \<open>move\<close> recovers\<close>

lemma move_clamped_nonzero:
  "radius \<noteq> 0 \<Longrightarrow> move_clamped p radius = Fin (max (- 1) (min 1 (pos_y p / radius)))"
  by (simp add: move_clamped_def js_div_def)

lemma move_phi_nonzero:
  "radius \<noteq> 0 \<Longrightarrow> move_phi p radius = Some (arccos (max (- 1) (min 1 (pos_y p / radius))))"
  by (simp add: move_phi_def move_clamped_nonzero)

lemma move_phi_zero_radius:
  "move_phi p 0 = (if 0 < pos_y p then Some 0 else if pos_y p < 0 then Some pi else None)"
  by (simp add: move_phi_def move_clamped_def js_div_def)

lemma move_phi_defined:
  assumes "radius \<noteq> 0 \<or> pos_y p \<noteq> 0"
  shows "\<exists>phi. move_phi p radius = Some phi"
proof (cases "radius = 0")
  case True
  with assms show ?thesis by (auto simp: move_phi_zero_radius)
next
  case False
  then show ?thesis by (simp add: move_phi_nonzero)
qed

lemma applyRotation_on_sphere:
  "(pos_x (primary_position (applyRotation radius theta phi c)))\<^sup>2
   + (pos_y (primary_position (applyRotation radius theta phi c)))\<^sup>2
   + (pos_z (primary_position (applyRotation radius theta phi c)))\<^sup>2 = radius\<^sup>2"
  by (simp add: applyRotation_def on_sphere)

lemma move_Some:
  assumes "move_phi (primary_position c) radius = Some phi"
  shows "move direction delta radius c =
    Some (applyRotation radius
            (case direction of LEFT \<Rightarrow> move_theta (primary_position c) + MOVE_STEP * delta
                | RIGHT \<Rightarrow> move_theta (primary_position c) - MOVE_STEP * delta
                | _ \<Rightarrow> move_theta (primary_position c))
            (case direction of UP \<Rightarrow> phi + MOVE_STEP * delta
                | DOWN \<Rightarrow> phi - MOVE_STEP * delta
                | _ \<Rightarrow> phi) c)"
  using assms by (cases direction) (simp_all add: move_def)

lemma sphere_phi:
  assumes "0 < r" and "a\<^sup>2 + y\<^sup>2 + b\<^sup>2 = r\<^sup>2"
  shows "max (- 1) (min 1 (y / r)) = y / r"
    and "cos (arccos (y / r)) * r = y"
    and "sin (arccos (y / r)) * r = sqrt (b\<^sup>2 + a\<^sup>2)"
proof -
  have "y\<^sup>2 \<le> r\<^sup>2" using assms(2) by (smt (verit) zero_le_power2)
  then have "\<bar>y\<bar> \<le> r" using assms(1) by (simp add: abs_le_square_iff [symmetric])
  then have bnd: "- 1 \<le> y / r" "y / r \<le> 1" using assms(1) by (simp_all add: field_simps)
  then show "max (- 1) (min 1 (y / r)) = y / r" by simp
  show "cos (arccos (y / r)) * r = y" using bnd assms(1) by simp
  have "1 - (y / r)\<^sup>2 = (b\<^sup>2 + a\<^sup>2) / r\<^sup>2"
    using assms by (simp add: power_divide field_simps)
  then have "sin (arccos (y / r)) = sqrt (b\<^sup>2 + a\<^sup>2) / r"
    using bnd assms(1) by (simp add: sin_arccos real_sqrt_divide)
  then show "sin (arccos (y / r)) * r = sqrt (b\<^sup>2 + a\<^sup>2)" using assms(1) by simp
qed

lemma applyRotation_restore:
  assumes "sin phi * radius * sin theta = pos_x (primary_position c)"
    and "sin phi * radius * cos theta = pos_z (primary_position c)"
    and "cos phi * radius = pos_y (primary_position c)"
  shows "applyRotation radius theta phi (applyRotation radius theta' phi' c) = c"
  using assms by (simp add: applyRotation_def)

lemma yaw_back:
  fixes c :: compound and r d :: real
  defines "p \<equiv> primary_position c"
  defines "phi \<equiv> arccos (pos_y p / r)"
  defines "c1 \<equiv> applyRotation r (move_theta p + d) phi c"
  assumes r: "0 < r" and sph: "(pos_x p)\<^sup>2 + (pos_y p)\<^sup>2 + (pos_z p)\<^sup>2 = r\<^sup>2"
  shows "move_phi p r = Some phi"
    and "move_phi (primary_position c1) r = Some phi"
    and "applyRotation r (move_theta (primary_position c1) - d) phi c1 = c"
proof -
  note sp = sphere_phi [OF r sph]
  let ?s = "sin phi * r"
  have s: "?s = sqrt ((pos_z p)\<^sup>2 + (pos_x p)\<^sup>2)"
    using sp(3) by (simp add: phi_def)
  have y1: "pos_y (primary_position c1) = pos_y p"
    using sp(2) by (simp add: c1_def applyRotation_def phi_def)
  show "move_phi p r = Some phi"
    using r by (simp add: move_phi_nonzero sp(1) phi_def)
  show "move_phi (primary_position c1) r = Some phi"
    using r by (simp add: move_phi_nonzero y1 sp(1) phi_def)
  have th1: "move_theta (primary_position c1)
        = atan2 (?s * sin (atan2 (pos_x p) (pos_z p) + d)) (?s * cos (atan2 (pos_x p) (pos_z p) + d))"
    by (simp add: c1_def applyRotation_def move_theta_def)
  have "?s * sin (move_theta (primary_position c1) - d) = pos_x p"
    and "?s * cos (move_theta (primary_position c1) - d) = pos_z p"
    unfolding th1 using yaw_roundtrip [OF s] by simp_all
  moreover have "cos phi * r = pos_y p"
    using sp(2) by (simp add: phi_def)
  ultimately show "applyRotation r (move_theta (primary_position c1) - d) phi c1 = c"
    unfolding c1_def p_def by (intro applyRotation_restore) simp_all
qed

subsection \<open>Positions with NaN coordinates\<close>

lemma js_phi_numeric: "js_phi (Some (pos_y p)) radius = move_phi p radius"
  by (simp add: js_phi_def move_phi_def move_clamped_def)

lemma move_js_numeric:
  "move_js direction delta radius (numeric (primary_position c))
     = (case move direction delta radius c of
          None \<Rightarrow> nan_position
        | Some c' \<Rightarrow> numeric (primary_position c'))"
proof (cases "move_phi (primary_position c) radius")
  case None
  then show ?thesis
    by (cases direction)
      (simp_all add: move_js_def move_def js_phi_numeric [symmetric] numeric_def
        applyRotation_js_def nan_position_def)
next
  case (Some phi)
  then show ?thesis
    by (cases direction)
      (simp_all add: move_js_def move_def js_phi_numeric [symmetric] numeric_def
        applyRotation_js_def applyRotation_def js_atan2_def move_theta_def Let_def)
qed

lemma numeric_on_sphere:
  "primary_on_sphere r (numeric p) \<longleftrightarrow> (pos_x p)\<^sup>2 + (pos_y p)\<^sup>2 + (pos_z p)\<^sup>2 = r\<^sup>2"
  by (simp add: primary_on_sphere_def numeric_def)

lemma scatter_coordinate_values:
  "scatter_coordinate 0 = 84" "scatter_coordinate (1 / 2) = 0"
  by (simp_all add: scatter_coordinate_def EARTH_RADIUS_def)

lemma spaceship_start_values:
  "spaceship_start 0 0 0 = \<lparr>js_x = Some 84, js_y = Some 84, js_z = None\<rparr>"
  "spaceship_start (1 / 2) (1 / 2) (1 / 2) = \<lparr>js_x = Some 0, js_y = Some 0, js_z = Some 84\<rparr>"
proof -
  show "spaceship_start 0 0 0 = \<lparr>js_x = Some 84, js_y = Some 84, js_z = None\<rparr>"
    by (simp add: spaceship_start_def scatter_coordinate_values js_sqrt_def EARTH_RADIUS_def)
  have "sqrt (84\<^sup>2) = (84 :: real)" by (simp only: real_sqrt_abs)
  then have "sqrt 7056 = (84 :: real)" by simp
  then show "spaceship_start (1 / 2) (1 / 2) (1 / 2)
      = \<lparr>js_x = Some 0, js_y = Some 0, js_z = Some 84\<rparr>"
    by (simp add: spaceship_start_def scatter_coordinate_values js_sqrt_def EARTH_RADIUS_def)
qed

subsection \<open>The claims about the moves\<close>

text \<open>
  Claim C1, as amended. When the three coordinates of the primary's previous position are
  numbers, and the quotient \<open>y / radius\<close> is not \<open>0 / 0\<close> (the radius is not zero, or
  the previous \<open>y\<close> is not zero), then after \<open>move(direction, delta, radius)\<close> the
  primary's position satisfies \<open>x\<^sup>2 + y\<^sup>2 + z\<^sup>2 = radius\<^sup>2\<close>, for every direction and every
  delta.
\<close>

theorem move_on_sphere:
  assumes "js_x p = Some x" and "js_y p = Some y" and "js_z p = Some z"
    and "radius \<noteq> 0 \<or> y \<noteq> 0"
  shows "primary_on_sphere radius (move_js direction delta radius p)"
proof -
  let ?c = "spaceship x y z"
  have p: "p = numeric (primary_position ?c)"
    using assms(1-3) by (simp add: numeric_def spaceship_def)
  have "radius \<noteq> 0 \<or> pos_y (primary_position ?c) \<noteq> 0"
    using assms(4) by (simp add: spaceship_def)
  from move_phi_defined [OF this] obtain phi
    where "move_phi (primary_position ?c) radius = Some phi" ..
  then show ?thesis
    unfolding p move_js_numeric
    by (simp add: move_Some numeric_on_sphere applyRotation_on_sphere)
qed

theorem move_on_sphere_witness:
  "js_x (spaceship_start (1 / 2) (1 / 2) (1 / 2)) = Some 0
   \<and> js_y (spaceship_start (1 / 2) (1 / 2) (1 / 2)) = Some 0
   \<and> js_z (spaceship_start (1 / 2) (1 / 2) (1 / 2)) = Some 84
   \<and> (84::real) \<noteq> 0
   \<and> primary_on_sphere 84 (move_js UP 1 84 (spaceship_start (1 / 2) (1 / 2) (1 / 2)))"
  using move_on_sphere [of "spaceship_start (1 / 2) (1 / 2) (1 / 2)" 0 0 84 84 UP 1]
  by (simp add: spaceship_start_values)

text \<open>
  Two inputs at which the equation of C1 fails. \<open>#buildScene\<close> with \<open>Math.random()\<close>
  giving \<open>0\<close> three times places the spaceship at \<open>(84, 84, NaN)\<close>; a move with the radius
  \<open>84\<close> that \<open>#update\<close> passes then has \<open>theta\<close> NaN and writes NaN into \<open>x\<close> and
  \<open>z\<close>. And with radius \<open>0\<close> and a previous \<open>y\<close> of \<open>0\<close> the quotient is NaN, so are
  \<open>phi\<close> and the three coordinates that are written.
\<close>

theorem move_off_sphere_counterexample:
  "\<not> primary_on_sphere 84 (move_js UP 1 84 (spaceship_start 0 0 0))
   \<and> \<not> primary_on_sphere 0 (move_js UP 1 0 \<lparr>js_x = Some 1, js_y = Some 0, js_z = Some 2\<rparr>)"
  by (simp add: spaceship_start_values primary_on_sphere_def move_js_def js_atan2_def
      js_phi_def js_div_def applyRotation_js_def)

text \<open>
  Claim C4. \<open>move\<close> is the closed-form computation of the specification: \<open>theta\<close> is
  \<open>atan2(x, z)\<close>, \<open>phi\<close> is the arc cosine of \<open>y / radius\<close> clamped to \<open>[-1, 1]\<close>; UP
  and DOWN add and subtract \<open>MOVE_STEP * delta\<close> on \<open>phi\<close>, LEFT and RIGHT on \<open>theta\<close>;
  the position becomes \<open>(radius sin phi sin theta, radius cos phi, radius sin phi cos theta)\<close>.
\<close>

theorem move_closed_form:
  "move direction delta radius c = move_spec direction delta radius c"
  by (cases direction)
    (simp_all add: move_def move_spec_def move_phi_def move_clamped_def move_theta_def clamp_def
      applyRotation_def Let_def mult_ac split: option.splits)

theorem move_closed_form_witness:
  "move LEFT 0 84 (spaceship 0 0 84) = Some (spaceship 0 0 84)
   \<and> move_spec LEFT 0 84 (spaceship 0 0 84) = Some (spaceship 0 0 84)"
  using move_closed_form [of LEFT 0 84 "spaceship 0 0 84"]
  by (simp add: move_spec_def clamp_def js_div_def atan2_def spaceship_def)

text \<open>
  Claim C6. The move-by-direction routine translates the group by \<open>20 * delta\<close> along one
  axis: UP adds it to \<open>y\<close>, DOWN subtracts it from \<open>y\<close>, LEFT subtracts it from \<open>x\<close>,
  RIGHT adds it to \<open>x\<close>; the other two coordinates keep their values.
\<close>

theorem move_group_translates:
  "group_position (move_group UP delta c)
     = \<lparr>pos_x = pos_x (group_position c),
        pos_y = pos_y (group_position c) + 20 * delta,
        pos_z = pos_z (group_position c)\<rparr>
   \<and> group_position (move_group DOWN delta c)
     = \<lparr>pos_x = pos_x (group_position c),
        pos_y = pos_y (group_position c) - 20 * delta,
        pos_z = pos_z (group_position c)\<rparr>
   \<and> group_position (move_group LEFT delta c)
     = \<lparr>pos_x = pos_x (group_position c) - 20 * delta,
        pos_y = pos_y (group_position c),
        pos_z = pos_z (group_position c)\<rparr>
   \<and> group_position (move_group RIGHT delta c)
     = \<lparr>pos_x = pos_x (group_position c) + 20 * delta,
        pos_y = pos_y (group_position c),
        pos_z = pos_z (group_position c)\<rparr>"
  by (simp add: move_group_def MOVE_STEP_group_def)

text \<open>
  Claim C8. On the sphere of a radius \<open>r > 0\<close>, a move LEFT followed by a move RIGHT
  with the same delta gives back the position it started from, and so does RIGHT followed
  by LEFT.
\<close>

theorem left_right_roundtrip:
  assumes "0 < r"
    and "(pos_x (primary_position c))\<^sup>2 + (pos_y (primary_position c))\<^sup>2
         + (pos_z (primary_position c))\<^sup>2 = r\<^sup>2"
  shows "Option.bind (move LEFT delta r c) (move RIGHT delta r) = Some c
       \<and> Option.bind (move RIGHT delta r c) (move LEFT delta r) = Some c"
proof
  note phi = yaw_back(1) [OF assms]
  note phi1 = yaw_back(2) [OF assms, of "MOVE_STEP * delta"]
  note rest = yaw_back(3) [OF assms, of "MOVE_STEP * delta"]
  show "Option.bind (move LEFT delta r c) (move RIGHT delta r) = Some c"
    by (simp add: move_Some [OF phi] move_Some [OF phi1] rest)
next
  note phi = yaw_back(1) [OF assms]
  note phi1 = yaw_back(2) [OF assms, of "- (MOVE_STEP * delta)", simplified]
  note rest = yaw_back(3) [OF assms, of "- (MOVE_STEP * delta)", simplified]
  show "Option.bind (move RIGHT delta r c) (move LEFT delta r) = Some c"
    by (simp add: move_Some [OF phi] move_Some [OF phi1] rest)
qed

theorem left_right_roundtrip_witness:
  "(0::real) < 84
   \<and> (pos_x (primary_position (spaceship 0 0 84)))\<^sup>2 + (pos_y (primary_position (spaceship 0 0 84)))\<^sup>2
         + (pos_z (primary_position (spaceship 0 0 84)))\<^sup>2 = 84\<^sup>2
   \<and> Option.bind (move LEFT 1 84 (spaceship 0 0 84)) (move RIGHT 1 84) = Some (spaceship 0 0 84)
   \<and> Option.bind (move RIGHT 1 84 (spaceship 0 0 84)) (move LEFT 1 84) = Some (spaceship 0 0 84)"
  using left_right_roundtrip [of 84 "spaceship 0 0 84" 1] by (simp add: spaceship_def)

text \<open>
  Claim C10. For a radius that is not zero the argument of the arc cosine is a number
  in \<open>[-1, 1]\<close>, whatever the position is, and \<open>phi\<close> is a value in \<open>[0, pi]\<close>.
\<close>

theorem move_phi_in_range:
  assumes "radius \<noteq> 0"
  shows "\<exists>v phi. move_clamped p radius = Fin v \<and> - 1 \<le> v \<and> v \<le> 1
           \<and> move_phi p radius = Some phi \<and> phi = arccos v \<and> 0 \<le> phi \<and> phi \<le> pi"
proof -
  let ?v = "max (- 1) (min 1 (pos_y p / radius))"
  have v: "- 1 \<le> ?v" "?v \<le> 1" by simp_all
  have "move_clamped p radius = Fin ?v" using assms by (rule move_clamped_nonzero)
  moreover have "move_phi p radius = Some (arccos ?v)" using assms by (rule move_phi_nonzero)
  moreover have "0 \<le> arccos ?v" "arccos ?v \<le> pi"
    using v by (rule arccos_lbound, rule arccos_ubound)
  ultimately show ?thesis using v by blast
qed

theorem move_phi_in_range_witness:
  "(2::real) \<noteq> 0 \<and> move_clamped \<lparr>pos_x = 0, pos_y = 5, pos_z = 0\<rparr> 2 = Fin 1
   \<and> move_phi \<lparr>pos_x = 0, pos_y = 5, pos_z = 0\<rparr> 2 = Some 0"
  using move_phi_in_range [of 2 "\<lparr>pos_x = 0, pos_y = 5, pos_z = 0\<rparr>"]
  by (simp add: move_clamped_nonzero move_phi_nonzero)

section \<open>Properties of the collision check\<close>

subsection \<open>The loop is one pass over the litter\<close>

lemma collision_distance_euclidean:
  "collision_distance p q = euclidean_distance p q"
  by (auto simp: collision_distance_def euclidean_distance_def Let_def power2_eq_square)

lemma checkCollision_body_eq:
  "checkCollision_body i s = remove_if_colliding s (litter s ! i)"
  by (simp add: checkCollision_body_def remove_if_colliding_def Let_def)

lemma remove_if_colliding_frame:
  "litter (remove_if_colliding s obj) = litter s"
  "objects (remove_if_colliding s obj) = objects s"
  "compound (remove_if_colliding s obj) = compound s"
  by (simp_all add: remove_if_colliding_def)

lemma collides_cong:
  "objects s' = objects s \<Longrightarrow> compound s' = compound s \<Longrightarrow> collides s' obj = collides s obj"
  by (simp add: collides_def collision_threshold_def split: option.split)

lemma scan_frame:
  "litter (foldl remove_if_colliding s xs) = litter s"
  "objects (foldl remove_if_colliding s xs) = objects s"
  "compound (foldl remove_if_colliding s xs) = compound s"
  by (induction xs arbitrary: s) (simp_all add: remove_if_colliding_frame)

lemma checkCollision_loop_scan:
  "checkCollision_loop i s = foldl remove_if_colliding s (drop i (litter s))"
proof (induction i s rule: checkCollision_loop.induct)
  case (1 i s)
  show ?case
  proof (cases "i < length (litter s)")
    case True
    have "checkCollision_loop i s = checkCollision_loop (i + 1) (checkCollision_body i s)"
      using True by (subst checkCollision_loop.simps) simp
    also have "\<dots> = foldl remove_if_colliding (checkCollision_body i s)
                       (drop (i + 1) (litter (checkCollision_body i s)))"
      using True by (rule "1.IH")
    also have "\<dots> = foldl remove_if_colliding s (litter s ! i # drop (Suc i) (litter s))"
      by (simp add: checkCollision_body_eq remove_if_colliding_frame)
    also have "\<dots> = foldl remove_if_colliding s (drop i (litter s))"
      using True by (simp add: Cons_nth_drop_Suc)
    finally show ?thesis .
  next
    case False
    then show ?thesis by (subst checkCollision_loop.simps) simp
  qed
qed

lemma checkCollision_scan:
  "checkCollision s = foldl remove_if_colliding s (litter s)"
  by (simp add: checkCollision_def checkCollision_loop_scan)

lemma checkCollision_visits_drop:
  "checkCollision_visits i s = drop i (litter s)"
proof (induction i s rule: checkCollision_visits.induct)
  case (1 i s)
  show ?case
  proof (cases "i < length (litter s)")
    case True
    have "checkCollision_visits i s
          = litter s ! i # checkCollision_visits (i + 1) (checkCollision_body i s)"
      using True by (subst checkCollision_visits.simps) simp
    also have "\<dots> = litter s ! i # drop (i + 1) (litter (checkCollision_body i s))"
      using True by (simp only: "1.IH")
    also have "\<dots> = drop i (litter s)"
      using True by (simp add: checkCollision_body_eq remove_if_colliding_frame Cons_nth_drop_Suc)
    finally show ?thesis .
  next
    case False
    then show ?thesis by (subst checkCollision_visits.simps) simp
  qed
qed

lemma scan_scene_subset:
  "set (scene (foldl remove_if_colliding s xs)) \<subseteq> set (scene s)"
proof (induction xs arbitrary: s)
  case Nil
  show ?case by simp
next
  case (Cons x xs)
  have "set (scene (remove_if_colliding s x)) \<subseteq> set (scene s)"
    using set_remove1_subset [of x "scene s"]
    by (simp add: remove_if_colliding_def scene_remove_def)
  with Cons.IH [of "remove_if_colliding s x"] show ?case by auto
qed

lemma scan_keeps:
  assumes "obj \<in> set (scene s)" and "obj \<notin> set xs \<or> \<not> collides s obj"
  shows "obj \<in> set (scene (foldl remove_if_colliding s xs))"
  using assms
proof (induction xs arbitrary: s)
  case Nil
  then show ?case by simp
next
  case (Cons x xs)
  let ?s = "remove_if_colliding s x"
  have c: "collides ?s obj = collides s obj"
    by (rule collides_cong) (simp_all add: remove_if_colliding_frame)
  have "obj \<in> set (scene ?s)"
  proof (cases "collides s x")
    case True
    then have "obj \<noteq> x" using Cons.prems(2) by auto
    then show ?thesis
      using Cons.prems(1) True by (simp add: remove_if_colliding_def scene_remove_def)
  next
    case False
    then show ?thesis
      using Cons.prems(1) by (simp add: remove_if_colliding_def)
  qed
  moreover have "obj \<notin> set xs \<or> \<not> collides ?s obj"
    using Cons.prems(2) c by auto
  ultimately show ?case using Cons.IH [of ?s] by simp
qed

lemma scan_removes:
  assumes "distinct (scene s)" and "obj \<in> set xs" and "collides s obj"
  shows "obj \<notin> set (scene (foldl remove_if_colliding s xs))"
  using assms
proof (induction xs arbitrary: s)
  case Nil
  then show ?case by simp
next
  case (Cons x xs)
  let ?s = "remove_if_colliding s x"
  have d: "distinct (scene ?s)"
    using Cons.prems(1) by (simp add: remove_if_colliding_def scene_remove_def)
  have c: "collides ?s obj"
    using Cons.prems(3) collides_cong [of ?s s obj] by (simp add: remove_if_colliding_frame)
  show ?case
  proof (cases "x = obj")
    case True
    then have "obj \<notin> set (scene ?s)"
      using Cons.prems(1,3) by (simp add: remove_if_colliding_def scene_remove_def)
    then show ?thesis using scan_scene_subset [of ?s xs] by auto
  next
    case False
    then have "obj \<in> set xs" using Cons.prems(2) by simp
    then show ?thesis using Cons.IH [OF d _ c] by simp
  qed
qed

lemma examined_threshold:
  "collision_threshold (foldl remove_if_colliding s xs) obj =
     (case raioCol (objects s obj) of
        None \<Rightarrow> None
      | Some rc \<Rightarrow> Some (rc + compound_raioCol (compound s)))"
  by (simp add: collision_threshold_def scan_frame cong: option.case_cong)

lemma collides_iff_euclidean:
  assumes "raioCol (objects s obj) = Some rc"
  shows "collides s obj \<longleftrightarrow>
    euclidean_distance (position (objects s obj)) (primary_position (compound s))
      \<le> rc + compound_raioCol (compound s)"
  using assms by (simp add: collides_def collision_threshold_def collision_distance_euclidean)

lemma funpow_checkCollision_litter:
  "litter ((checkCollision ^^ n) s) = litter s"
  by (induction n) (simp_all add: checkCollision_scan scan_frame)

subsection \<open>The small scene, evaluated\<close>

lemma debris_size_eq: "debris_size rnd = 3"
  by (simp add: debris_size_def EARTH_RADIUS_def)

lemma cube_raioCol_3: "cube_raioCol 3 = sqrt 3 * 3 / 2"
  by (simp add: cube_raioCol_def)

lemma cylinder_raioCol_3: "cylinder_raioCol (3 / 2) 3 = sqrt (9 / 2)"
proof -
  have "(3 / 2 :: real)\<^sup>2 + (3 / 2)\<^sup>2 = 9 / 2" by (simp add: power2_eq_square)
  then show ?thesis by (simp add: cylinder_raioCol_def)
qed

lemma cylinder_raioCol_3_le: "cylinder_raioCol (3 / 2) 3 \<le> 3"
  unfolding cylinder_raioCol_3 by (rule real_le_lsqrt) simp_all

lemma example_raioCol:
  "raioCol (objects example_state 1) = Some (cube_raioCol 3)"
  "raioCol (objects example_state 2) = Some (cylinder_raioCol (3 / 2) 3)"
  "raioCol (objects example_state 0) = None"
  by (simp_all add: example_state_def example_objects_def debris_size_eq)

lemma example_distance:
  "euclidean_distance (position (objects example_state 1))
     (primary_position (compound example_state)) = 0"
  "euclidean_distance (position (objects example_state 2))
     (primary_position (compound example_state)) = 168"
proof -
  show "euclidean_distance (position (objects example_state 1))
     (primary_position (compound example_state)) = 0"
    by (simp add: euclidean_distance_def example_state_def example_objects_def spaceship_def)
  have "sqrt ((- 168)\<^sup>2) = (168 :: real)" by (simp only: real_sqrt_abs)
  then show "euclidean_distance (position (objects example_state 2))
     (primary_position (compound example_state)) = 168"
    by (simp add: euclidean_distance_def example_state_def example_objects_def spaceship_def)
qed

lemma example_compound_raioCol:
  "compound_raioCol (compound example_state) = 552 / 100"
  by (simp add: example_state_def spaceship_def spaceship_raioCol_def)

lemma example_collides:
  "collides example_state 1" "\<not> collides example_state 2"
proof -
  have "collides example_state 1 \<longleftrightarrow> 0 \<le> cube_raioCol 3 + 552 / 100"
    unfolding collides_iff_euclidean [OF example_raioCol(1)] example_distance
      example_compound_raioCol ..
  moreover have "0 \<le> cube_raioCol 3" by (simp add: cube_raioCol_def)
  ultimately show "collides example_state 1" by simp
  have "collides example_state 2 \<longleftrightarrow> 168 \<le> cylinder_raioCol (3 / 2) 3 + 552 / 100"
    unfolding collides_iff_euclidean [OF example_raioCol(2)] example_distance
      example_compound_raioCol ..
  then show "\<not> collides example_state 2"
    using cylinder_raioCol_3_le by simp
qed

lemma example_checkCollision:
  "checkCollision example_state = example_state\<lparr>scene := [0, 2, 3]\<rparr>"
proof -
  let ?s = "example_state\<lparr>scene := [0, 2, 3]\<rparr>"
  have 1: "remove_if_colliding example_state 1 = ?s"
    using example_collides(1)
    by (simp add: remove_if_colliding_def scene_remove_def) (simp add: example_state_def)
  have "collides ?s 2 = collides example_state 2"
    by (rule collides_cong) simp_all
  then have 2: "remove_if_colliding ?s 2 = ?s"
    using example_collides(2) by (simp add: remove_if_colliding_def)
  have "litter example_state = [1, 2]" by (simp add: example_state_def)
  then show ?thesis using 1 2 by (simp add: checkCollision_scan)
qed

lemma threshold_differs: "cube_raioCol 3 \<noteq> cylinder_raioCol (3 / 2) 3"
proof
  assume "cube_raioCol 3 = cylinder_raioCol (3 / 2) 3"
  then have "(sqrt 3 * 3 / 2)\<^sup>2 = (sqrt (9 / 2))\<^sup>2"
    by (simp only: cube_raioCol_3 cylinder_raioCol_3)
  moreover have "(sqrt 3 * 3 / 2)\<^sup>2 = 27 / 4"
    by (simp add: power_divide power_mult_distrib)
  moreover have "(sqrt (9 / 2))\<^sup>2 = (9 / 2 :: real)" by simp
  ultimately show False by simp
qed

subsection \<open>The claims about the collision check and the frame\<close>

text \<open>
  Claim C2. In a scene without repeated children, where the compound's collision radius
  is \<open>5.52\<close>, a debris item that is in the scene is removed by the check exactly when
  the Euclidean distance between its position and the position of the spaceship's primary
  is at most the item's collision radius plus \<open>5.52\<close>; an item farther away stays.
\<close>

theorem checkCollision_removes_iff:
  assumes "distinct (scene s)"
    and "obj \<in> set (litter s)"
    and "obj \<in> set (scene s)"
    and "raioCol (objects s obj) = Some rc"
    and "compound_raioCol (compound s) = 552 / 100"
  shows "obj \<notin> set (scene (checkCollision s)) \<longleftrightarrow>
    euclidean_distance (position (objects s obj)) (primary_position (compound s))
      \<le> rc + 552 / 100"
proof -
  have c: "collides s obj \<longleftrightarrow>
      euclidean_distance (position (objects s obj)) (primary_position (compound s))
        \<le> rc + 552 / 100"
    using collides_iff_euclidean [OF assms(4)] assms(5) by simp
  show ?thesis
  proof (cases "collides s obj")
    case True
    then have "obj \<notin> set (scene (checkCollision s))"
      unfolding checkCollision_scan using assms(1,2) by (intro scan_removes)
    with True c show ?thesis by simp
  next
    case False
    then have "obj \<in> set (scene (checkCollision s))"
      unfolding checkCollision_scan using assms(3) by (intro scan_keeps) simp_all
    with False c show ?thesis by simp
  qed
qed

theorem checkCollision_removes_iff_witness:
  "distinct (scene example_state)
   \<and> 1 \<in> set (litter example_state)
   \<and> 1 \<in> set (scene example_state)
   \<and> raioCol (objects example_state 1) = Some (cube_raioCol 3)
   \<and> compound_raioCol (compound example_state) = 552 / 100
   \<and> euclidean_distance (position (objects example_state 1))
         (primary_position (compound example_state)) = 0
   \<and> 1 \<notin> set (scene (checkCollision example_state))"
proof -
  have h: "distinct (scene example_state)" "1 \<in> set (litter example_state)"
    "1 \<in> set (scene example_state)"
    by (simp_all add: example_state_def)
  have "0 \<le> cube_raioCol 3" by (simp add: cube_raioCol_def)
  then have "1 \<notin> set (scene (checkCollision example_state))"
    unfolding checkCollision_removes_iff [OF h example_raioCol(1) example_compound_raioCol]
      example_distance by simp
  then show ?thesis
    using h example_raioCol(1) example_compound_raioCol example_distance(1) by simp
qed

text \<open>
  Claim C3, as amended. The check is one pass over the litter: it reads the items of the
  list in order, each once. The threshold of an item is that item's own collision radius
  plus the collision radius of the compound; only the second term is the same for every
  item, and it does not change during the pass.
\<close>

theorem checkCollision_linear_scan:
  "checkCollision_visits 0 s = litter s
   \<and> checkCollision s = foldl remove_if_colliding s (litter s)
   \<and> collision_threshold (foldl remove_if_colliding s (take k (litter s))) obj
       = (case raioCol (objects s obj) of
            None \<Rightarrow> None
          | Some rc \<Rightarrow> Some (rc + compound_raioCol (compound s)))"
  by (simp add: checkCollision_visits_drop checkCollision_scan examined_threshold)

theorem checkCollision_linear_scan_witness:
  "checkCollision_visits 0 example_state = [1, 2]
   \<and> checkCollision example_state = foldl remove_if_colliding example_state [1, 2]
   \<and> collision_threshold (foldl remove_if_colliding example_state (take 1 [1, 2])) 2
       = Some (cylinder_raioCol (3 / 2) 3 + 552 / 100)"
proof -
  have "litter example_state = [1, 2]" by (simp add: example_state_def)
  then show ?thesis
    using checkCollision_linear_scan [of example_state 1 2]
      example_raioCol(2) example_compound_raioCol
    by simp
qed

text \<open>
  The threshold is not one value for the whole scan: a cube and a cylinder as
  \<open>#buildScene\<close> makes them have different collision radii, so their thresholds differ.
\<close>

theorem threshold_not_single_counterexample:
  "collision_threshold example_state 1 \<noteq> collision_threshold example_state 2"
  using threshold_differs example_raioCol(1,2)
  by (simp add: collision_threshold_def)

text \<open>
  Claim C5. Every run of \<open>#update\<close> starts with the scan of the whole litter; the key
  controller receives the state that the scan leaves, and \<open>animate\<close> draws the scene only
  after \<open>#update\<close> has finished. Each frame of the loop is such a run.
\<close>

theorem update_scans_before_keys_and_display:
  "update processKeyPressed delta s
     = (let s1 = foldl remove_if_colliding s (litter s);
            s2 = processKeyPressed delta 84 s1
        in s2\<lparr>compound := lookAt \<lparr>pos_x = 0, pos_y = 0, pos_z = 0\<rparr> (compound s2)\<rparr>)
   \<and> checkCollision_visits 0 s = litter s
   \<and> animate processKeyPressed delta s
       = (update processKeyPressed delta s, scene (update processKeyPressed delta s))
   \<and> frames processKeyPressed (delta # deltas) s
       = (fst (frames processKeyPressed deltas (update processKeyPressed delta s)),
          scene (update processKeyPressed delta s)
            # snd (frames processKeyPressed deltas (update processKeyPressed delta s)))"
  by (simp add: update_def animate_def display_def Let_def checkCollision_scan
      checkCollision_visits_drop EARTH_RADIUS_def split: prod.split)

theorem update_scans_before_keys_and_display_witness:
  "checkCollision_visits 0 example_state = [1, 2]
   \<and> snd (animate (\<lambda>delta radius s. s) 0 example_state) = [0, 2, 3]
   \<and> snd (frames (\<lambda>delta radius s. s) [0] example_state) = [[0, 2, 3]]"
proof -
  have "litter example_state = [1, 2]" by (simp add: example_state_def)
  then show ?thesis
    using update_scans_before_keys_and_display [of "\<lambda>delta radius s. s" 0 example_state "[]"]
      example_checkCollision
    by (simp add: checkCollision_scan Let_def)
qed

text \<open>
  Claim C7. The check changes nothing but the scene's child list, and only by taking
  litter out of it: the meshes (their positions) and the compound are as before, every
  child of the scene that is not in the litter (the earth, the group of the spaceship)
  stays, and so does every debris item that is farther away than its threshold.
\<close>

theorem checkCollision_only_removes_debris:
  "objects (checkCollision s) = objects s
   \<and> compound (checkCollision s) = compound s
   \<and> set (scene (checkCollision s)) \<subseteq> set (scene s)
   \<and> (obj \<in> set (scene s) \<and> obj \<notin> set (litter s)
        \<longrightarrow> obj \<in> set (scene (checkCollision s)))
   \<and> (obj \<in> set (scene s) \<and> raioCol (objects s obj) = Some rc
        \<and> rc + compound_raioCol (compound s)
            < euclidean_distance (position (objects s obj)) (primary_position (compound s))
        \<longrightarrow> obj \<in> set (scene (checkCollision s)))"
proof (intro conjI impI)
  show "objects (checkCollision s) = objects s" "compound (checkCollision s) = compound s"
    by (simp_all add: checkCollision_scan scan_frame)
  show "set (scene (checkCollision s)) \<subseteq> set (scene s)"
    unfolding checkCollision_scan by (rule scan_scene_subset)
next
  assume "obj \<in> set (scene s) \<and> obj \<notin> set (litter s)"
  then show "obj \<in> set (scene (checkCollision s))"
    unfolding checkCollision_scan by (intro scan_keeps) simp_all
next
  assume a: "obj \<in> set (scene s) \<and> raioCol (objects s obj) = Some rc
        \<and> rc + compound_raioCol (compound s)
            < euclidean_distance (position (objects s obj)) (primary_position (compound s))"
  then have "\<not> collides s obj"
    using collides_iff_euclidean [of s obj rc] by simp
  with a show "obj \<in> set (scene (checkCollision s))"
    unfolding checkCollision_scan by (intro scan_keeps) simp_all
qed

theorem checkCollision_only_removes_debris_witness:
  "0 \<in> set (scene example_state) \<and> 0 \<notin> set (litter example_state)
   \<and> 0 \<in> set (scene (checkCollision example_state))
   \<and> 2 \<in> set (scene example_state)
   \<and> raioCol (objects example_state 2) = Some (cylinder_raioCol (3 / 2) 3)
   \<and> cylinder_raioCol (3 / 2) 3 + compound_raioCol (compound example_state)
       < euclidean_distance (position (objects example_state 2))
           (primary_position (compound example_state))
   \<and> 2 \<in> set (scene (checkCollision example_state))
   \<and> compound (checkCollision example_state) = compound example_state"
proof -
  have h: "0 \<in> set (scene example_state)" "0 \<notin> set (litter example_state)"
    "2 \<in> set (scene example_state)"
    by (simp_all add: example_state_def)
  have far: "cylinder_raioCol (3 / 2) 3 + compound_raioCol (compound example_state)
       < euclidean_distance (position (objects example_state 2))
           (primary_position (compound example_state))"
    using cylinder_raioCol_3_le by (simp add: example_distance example_compound_raioCol)
  show ?thesis
    using checkCollision_only_removes_debris [of example_state 0]
      checkCollision_only_removes_debris [of example_state 2 "cylinder_raioCol (3 / 2) 3"]
      h far example_raioCol(2)
    by simp
qed

text \<open>
  Claim C9. The check leaves the litter array as it is, also when it removes an item from
  the scene: the array has the same elements after one frame and after any number of
  frames, and the scan of the next frame reads all of them again.
\<close>

theorem checkCollision_keeps_litter:
  "litter (checkCollision s) = litter s
   \<and> litter ((checkCollision ^^ n) s) = litter s
   \<and> checkCollision_visits 0 (checkCollision s) = litter s"
  by (simp add: funpow_checkCollision_litter checkCollision_visits_drop checkCollision_scan
      scan_frame)

theorem checkCollision_keeps_litter_witness:
  "1 \<notin> set (scene (checkCollision example_state))
   \<and> litter (checkCollision example_state) = [1, 2]
   \<and> litter ((checkCollision ^^ 3) example_state) = [1, 2]
   \<and> checkCollision_visits 0 (checkCollision example_state) = [1, 2]"
proof -
  have "litter example_state = [1, 2]" by (simp add: example_state_def)
  moreover have "1 \<notin> set (scene (checkCollision example_state))"
    by (simp add: example_checkCollision)
  ultimately show ?thesis
    using checkCollision_keeps_litter [of example_state 3] by simp
qed

end
